theory Spec2Isabelle
  imports Complex_Main "HOL-Library.Log_Nat"
begin
section \<open>JavaScript numbers\<close>

text \<open>
  A number of the program is \<open>NaN\<close> or a finite IEEE-754 binary64 value. A finite double
  is a dyadic rational and is kept as its value, a \<^typ>\<open>rat\<close>. Arithmetic on finite
  doubles is the exact operation followed by \<open>fl\<close>, rounding to the nearest double with
  ties to the even significand (53 significant bits, gradual underflow below
  \<open>2\<^sup>-\<^sup>1\<^sup>0\<^sup>2\<^sup>2\<close>); an operation on \<open>NaN\<close> gives \<open>NaN\<close> and a comparison with
  \<open>NaN\<close> is false. The infinities are left out: the only arithmetic of the program,
  \<open>100 - m\<close>, cannot overflow, and no number it reads is infinite.
\<close>

datatype number = NaN | Num rat

definition rne :: "rat \<Rightarrow> int" where
  \<comment> \<open>nearest integer, a tie going to the even one\<close>
  "rne y = (let n = \<lfloor>y\<rfloor>; r = y - of_int n
            in if r < 1 / 2 then n else if 1 / 2 < r then n + 1 else if even n then n else n + 1)"

definition expo :: "rat \<Rightarrow> int" where
  \<comment> \<open>the binary exponent \<open>e\<close> of a non-zero \<open>x\<close>: \<open>2\<^sup>e \<le> \<bar>x\<bar> < 2\<^sup>e\<^sup>+\<^sup>1\<close>\<close>
  "expo x = (if 1 \<le> \<bar>x\<bar> then bitlen \<lfloor>\<bar>x\<bar>\<rfloor> - 1 else - bitlen (\<lceil>1 / \<bar>x\<bar>\<rceil> - 1))"

definition fl :: "rat \<Rightarrow> rat" where
  "fl x = (if x = 0 then 0
           else let q = 2 powi (max (expo x) (- 1022) - 52) in of_int (rne (x / q)) * q)"

fun js_sub :: "number \<Rightarrow> number \<Rightarrow> number" where
  \<comment> \<open>the JavaScript expression \<open>a - b\<close> on numbers\<close>
  "js_sub (Num a) (Num b) = Num (fl (a - b))"
| "js_sub _ _ = NaN"

fun js_le :: "number \<Rightarrow> number \<Rightarrow> bool" where
  \<comment> \<open>the JavaScript expression \<open>a <= b\<close> on numbers\<close>
  "js_le (Num a) (Num b) = (a \<le> b)"
| "js_le _ _ = False"

subsection \<open>\<open>Number.prototype.toFixed(2)\<close>\<close>

definition digit_char :: "nat \<Rightarrow> char" where
  "digit_char d = char_of (48 + d)"

fun decimal :: "nat \<Rightarrow> string" where
  "decimal n = (if n < 10 then [digit_char n] else decimal (n div 10) @ [digit_char (n mod 10)])"

declare decimal.simps [simp del]

definition fixed2 :: "rat \<Rightarrow> string" where
  \<comment> \<open>ECMAScript \<open>toFixed\<close> with \<open>fractionDigits = 2\<close> on a finite \<open>x\<close> with
      \<open>\<bar>x\<bar> < 10\<^sup>2\<^sup>1\<close>: the sign, then the integer \<open>n\<close> with \<open>n / 100\<close> nearest to
      \<open>\<bar>x\<bar>\<close> (the larger \<open>n\<close> on a tie), left-padded with zeros to three digits, with a
      point before its last two digits\<close>
  "fixed2 x =
     (let s = (if x < 0 then ''-'' else []);
          n = nat \<lfloor>\<bar>x\<bar> * 100 + 1 / 2\<rfloor>;
          m = decimal n;
          m' = (if length m \<le> 2 then replicate (3 - length m) CHR ''0'' @ m else m);
          k = length m'
      in s @ take (k - 2) m' @ ''.'' @ drop (k - 2) m')"

fun toFixed2 :: "number \<Rightarrow> string" where
  \<comment> \<open>\<open>x.toFixed(2)\<close>: a number that is not finite is rendered by name\<close>
  "toFixed2 NaN = ''NaN''"
| "toFixed2 (Num x) = fixed2 x"

subsection \<open>Reading a two-decimal string back\<close>

text \<open>
  The client reads the report's strings as decimal numbers. \<open>fixed2_value\<close> gives the
  number denoted by a string of the form \<open>[-]d\<dots>d.dd\<close> (at least one digit before the point,
  exactly two after it) and \<open>None\<close> for every other string.
\<close>

definition is_digit :: "char \<Rightarrow> bool" where
  "is_digit c = (48 \<le> (of_char c :: nat) \<and> (of_char c :: nat) \<le> 57)"

definition digits_value :: "string \<Rightarrow> nat" where
  "digits_value ds = foldl (\<lambda>a c. 10 * a + ((of_char c :: nat) - 48)) 0 ds"

definition fixed2_value :: "string \<Rightarrow> rat option" where
  "fixed2_value s =
     (let neg = (s \<noteq> [] \<and> hd s = CHR ''-'');
          t = (if neg then tl s else s);
          ip = takeWhile is_digit t;
          fp = dropWhile is_digit t
      in if ip \<noteq> [] \<and> length fp = 3 \<and> hd fp = CHR ''.'' \<and> list_all is_digit (tl fp)
         then Some ((if neg then - 1 else 1) * (of_nat (digits_value (ip @ tl fp)) / 100))
         else None)"

definition clamp :: "rat \<Rightarrow> rat \<Rightarrow> rat \<Rightarrow> rat" where
  "clamp x lo hi = max lo (min hi x)"

section \<open>Paths and files\<close>

type_synonym path = string

subsection \<open>Node's POSIX \<open>path.dirname\<close> and \<open>path.join\<close>\<close>

fun dirname_scan :: "string \<Rightarrow> nat \<Rightarrow> bool \<Rightarrow> nat option" where
  \<comment> \<open>the loop of \<open>dirname\<close>: from index \<open>i\<close> down to 1, the index of the separator that ends
      the directory part; \<open>matchedSlash\<close> holds while only trailing separators were seen\<close>
  "dirname_scan p 0 matchedSlash = None"
| "dirname_scan p (Suc i) matchedSlash =
     (if p ! Suc i = CHR ''/''
      then (if \<not> matchedSlash then Some (Suc i) else dirname_scan p i matchedSlash)
      else dirname_scan p i False)"

definition path_dirname :: "path \<Rightarrow> path" where
  "path_dirname p =
     (if p = [] then ''.''
      else let hasRoot = (hd p = CHR ''/'')
           in case dirname_scan p (length p - 1) True of
                None \<Rightarrow> if hasRoot then ''/'' else ''.''
              | Some e \<Rightarrow> if hasRoot \<and> e = 1 then ''//'' else take e p)"

fun split_sep :: "string \<Rightarrow> string list" where
  "split_sep [] = [[]]"
| "split_sep (c # cs) =
     (if c = CHR ''/'' then [] # split_sep cs
      else case split_sep cs of s # ss \<Rightarrow> (c # s) # ss | [] \<Rightarrow> [[c]])"

fun normalizeString :: "string list \<Rightarrow> bool \<Rightarrow> string list \<Rightarrow> string list" where
  \<comment> \<open>resolves \<open>.\<close>, \<open>..\<close> and empty segments; \<open>res\<close> holds the kept segments, last first\<close>
  "normalizeString [] allowAboveRoot res = rev res"
| "normalizeString (seg # segs) allowAboveRoot res =
     (if seg = [] \<or> seg = ''.'' then normalizeString segs allowAboveRoot res
      else if seg = ''..'' then
        (if res \<noteq> [] \<and> hd res \<noteq> ''..'' then normalizeString segs allowAboveRoot (tl res)
         else if allowAboveRoot then normalizeString segs allowAboveRoot (''..'' # res)
         else normalizeString segs allowAboveRoot res)
      else normalizeString segs allowAboveRoot (seg # res))"

fun join_sep :: "string list \<Rightarrow> string" where
  "join_sep [] = []"
| "join_sep [s] = s"
| "join_sep (s # ss) = s @ ''/'' @ join_sep ss"

definition path_normalize :: "path \<Rightarrow> path" where
  "path_normalize p =
     (if p = [] then ''.''
      else let isAbsolute = (hd p = CHR ''/'');
               trailingSeparator = (last p = CHR ''/'');
               q = join_sep (normalizeString (split_sep p) (\<not> isAbsolute) [])
           in if q = [] then (if isAbsolute then ''/'' else if trailingSeparator then ''./'' else ''.'')
              else (if isAbsolute then ''/'' else []) @ q @ (if trailingSeparator then ''/'' else []))"

definition path_join :: "path \<Rightarrow> path \<Rightarrow> path" where
  "path_join a b =
     (let joined = (if a = [] then b else if b = [] then a else a @ ''/'' @ b)
      in if joined = [] then ''.'' else path_normalize joined)"

subsection \<open>The file system\<close>

text \<open>
  A file holds either an encoded raster image, kept here in decoded form, or other bytes.
  Pixels are RGBA, row by row.
\<close>

record raster =
  width :: nat
  height :: nat
  pixels :: "(nat \<times> nat \<times> nat \<times> nat) list"

datatype content = Image raster | Blob "nat list"

datatype js_error = Error string

record output_settings =
  errorColor :: "nat \<times> nat \<times> nat"
  errorType :: string
  transparency :: number
  largeImageThreshold :: nat
  useCrossOrigin :: bool
  outputDiff :: bool

record resemble_call =
  image1 :: "content option"
  image2 :: "content option"
  ignoreColors_arg :: bool
  ignoreAntialiasing_arg :: bool
  scaleToSameSize_arg :: bool
  outputSettings_arg :: output_settings

text \<open>
  The world the program runs in: the files by path, the paths that cannot be written
  (where \<open>writeFileSync\<close> throws), and the calls made to the comparison library so far,
  each with the settings handed to the library.
\<close>

record world =
  files :: "path \<rightharpoonup> content"
  readonly :: "path set"
  resemble_calls :: "resemble_call list"

definition existsSync :: "world \<Rightarrow> path \<Rightarrow> bool" where
  "existsSync w p = (files w p \<noteq> None)"

definition writeFileSync :: "world \<Rightarrow> path \<Rightarrow> content \<Rightarrow> js_error + world" where
  "writeFileSync w p c =
     (if p \<in> readonly w then
        Inl (Error (''EACCES: permission denied, open '' @ [CHR 0x27] @ p @ [CHR 0x27]))
      else Inr (w\<lparr>files := (files w)(p \<mapsto> c)\<rparr>))"

section \<open>The comparison (compare.js)\<close>

text \<open>
  The pixel comparison itself is done by the resemblejs package, which is not part of the
  repository. The model takes it as a parameter: a function from what the program hands to
  the library (the two files and the argument of each chained setter) to the data the
  library passes to the \<open>onComplete\<close> callback. Every field of that object may be
  undefined, which is \<open>None\<close> here: when the library cannot load an image it passes an
  object that holds only \<open>error\<close>. The fields \<open>data_misMatchPercentage\<close> and
  \<open>data_rawMisMatchPercentage\<close>, when present, hold the number that \<open>parseFloat\<close>
  reads from the library's field.
\<close>

type_synonym timestamp = nat

record resemble_data =
  data_error :: "string option"
  data_misMatchPercentage :: "number option"
  data_rawMisMatchPercentage :: "number option"
  data_isSameDimensions :: "bool option"
  data_dimensionDifference :: "(int \<times> int) option"
  data_diffBounds :: "(nat \<times> nat \<times> nat \<times> nat) option"
  data_analysisTime :: "nat option"
  data_getBuffer :: "content option"

definition parseFloat :: "number option \<Rightarrow> number" where
  \<comment> \<open>\<open>parseFloat\<close> of a field of the library's data: of \<open>undefined\<close> it is \<open>NaN\<close>\<close>
  "parseFloat field = (case field of None \<Rightarrow> NaN | Some x \<Rightarrow> x)"

type_synonym library = "resemble_call \<Rightarrow> resemble_data"

record options =
  opt_output :: "output_settings option"
  opt_scaleToSameSize :: "bool option"
  opt_ignore :: "string list option"

record comparison_options =
  output' :: output_settings
  scaleToSameSize :: bool
  ignore :: "string list"

definition defaultOptions :: comparison_options where
  "defaultOptions =
     \<lparr>output' = \<lparr>errorColor = (255, 0, 255), errorType = ''movement'',
                 transparency = Num (fl (3 / 10)),
                 largeImageThreshold = 1200, useCrossOrigin = False, outputDiff = True\<rparr>,
      scaleToSameSize = True,
      ignore = [''antialiasing'', ''colors'', ''less'', ''nothing'']\<rparr>"

definition no_options :: options where
  \<comment> \<open>the default argument \<open>options = {}\<close>\<close>
  "no_options = \<lparr>opt_output = None, opt_scaleToSameSize = None, opt_ignore = None\<rparr>"

definition spread :: "comparison_options \<Rightarrow> options \<Rightarrow> comparison_options" where
  \<comment> \<open>\<open>{ ...defaultOptions, ...options }\<close>: a key present in \<open>options\<close> replaces the default whole\<close>
  "spread d opts =
     \<lparr>output' = (case opt_output opts of Some v \<Rightarrow> v | None \<Rightarrow> output' d),
      scaleToSameSize = (case opt_scaleToSameSize opts of Some v \<Rightarrow> v | None \<Rightarrow> scaleToSameSize d),
      ignore = (case opt_ignore opts of Some v \<Rightarrow> v | None \<Rightarrow> ignore d)\<rparr>"

record raw_data =
  rawMisMatchPercentage :: number
  diffBounds :: "(nat \<times> nat \<times> nat \<times> nat) option"
  library_analysisTime :: "nat option"

record comparison_result =
  misMatchPercentage :: number
  isSameDimensions :: "bool option"
  dimensionDifference :: "(int \<times> int) option"
  analysisTime :: timestamp
  diffImagePath :: path
  rawData :: raw_data

definition resemble_request :: "world \<Rightarrow> path \<Rightarrow> path \<Rightarrow> comparison_options \<Rightarrow> resemble_call" where
  \<comment> \<open>the chain \<open>resemble(image1Path).compareTo(image2Path).ignoreColors(\<dots>)\<dots>\<close>\<close>
  "resemble_request w image1Path image2Path comparisonOptions =
     \<lparr>image1 = files w image1Path,
      image2 = files w image2Path,
      ignoreColors_arg = (''colors'' \<in> set (ignore comparisonOptions)),
      ignoreAntialiasing_arg = (''antialiasing'' \<in> set (ignore comparisonOptions)),
      scaleToSameSize_arg = scaleToSameSize comparisonOptions,
      outputSettings_arg = output' comparisonOptions\<rparr>"

definition compareImages ::
  "library \<Rightarrow> timestamp \<Rightarrow> path \<Rightarrow> path \<Rightarrow> options \<Rightarrow> world \<Rightarrow> (js_error + comparison_result) \<times> world" where
  \<comment> \<open>\<open>now\<close> is what \<open>new Date()\<close> reads in the completion callback\<close>
  "compareImages resemble now image1Path image2Path opts w =
     (if \<not> existsSync w image1Path then
        (Inl (Error (''Image comparison failed: '' @ ''First image not found: '' @ image1Path)), w)
      else if \<not> existsSync w image2Path then
        (Inl (Error (''Image comparison failed: '' @ ''Second image not found: '' @ image2Path)), w)
      else
        let comparisonOptions = spread defaultOptions opts;
            assetsDir = path_dirname image1Path;
            diffImagePath = path_join assetsDir ''diff.png'';
            call = resemble_request w image1Path image2Path comparisonOptions;
            w1 = w\<lparr>resemble_calls := resemble_calls w @ [call]\<rparr>;
            data = resemble call
        in case (case data_getBuffer data of
                   Some diffBuffer \<Rightarrow> writeFileSync w1 diffImagePath diffBuffer
                 | None \<Rightarrow> Inr w1) of
             Inl (Error msg) \<Rightarrow>
               (Inl (Error (''Failed to process comparison result: '' @ msg)), w1)
           | Inr w2 \<Rightarrow>
               (Inr \<lparr>misMatchPercentage = parseFloat (data_misMatchPercentage data),
                      isSameDimensions = data_isSameDimensions data,
                      dimensionDifference = data_dimensionDifference data,
                      analysisTime = now,
                      diffImagePath = diffImagePath,
                      rawData = \<lparr>rawMisMatchPercentage =
                                   parseFloat (data_rawMisMatchPercentage data),
                                 diffBounds = data_diffBounds data,
                                 library_analysisTime = data_analysisTime data\<rparr>\<rparr>, w2))"

datatype tolerance_message =
    MatchWithin number  \<comment> \<open>\<open>Images match within tolerance (${tolerance}%)\<close>\<close>
  | ExceedTolerance number string
      \<comment> \<open>\<open>Images exceed tolerance (${tolerance}%). Mismatch: ${\<dots>toFixed(2)}%\<close>\<close>

record tolerance_result = comparison_result +
  passed :: bool
  tolerance :: number
  status :: string
  message :: tolerance_message

definition compareImagesWithTolerance ::
  "library \<Rightarrow> timestamp \<Rightarrow> path \<Rightarrow> path \<Rightarrow> number \<Rightarrow> options \<Rightarrow> world
     \<Rightarrow> (js_error + tolerance_result) \<times> world" where
  "compareImagesWithTolerance resemble now image1Path image2Path tol opts w =
     (case compareImages resemble now image1Path image2Path opts w of
        (Inl e, w') \<Rightarrow> (Inl e, w')
      | (Inr result, w') \<Rightarrow>
          let passed = js_le (misMatchPercentage result) tol
          in (Inr (comparison_result.extend result
                     (tolerance_result.fields passed tol
                        (if passed then ''PASS'' else ''FAIL'')
                        (if passed then MatchWithin tol
                         else ExceedTolerance tol (toFixed2 (misMatchPercentage result))))), w'))"

section \<open>Values of a request body\<close>

text \<open>
  The fields of a JSON body are any JSON values. Arrays and objects are not told apart:
  they are truthy and are not strings, which is all the program asks of them.
\<close>

datatype json = JNull | JBool bool | JNumber number | JString string | JObject

fun js_not :: "json option \<Rightarrow> bool" where
  \<comment> \<open>\<open>!x\<close>, where \<open>None\<close> is \<open>undefined\<close>\<close>
  "js_not None = True"
| "js_not (Some JNull) = True"
| "js_not (Some (JBool b)) = (\<not> b)"
| "js_not (Some (JNumber n)) = (n = Num 0 \<or> n = NaN)"
| "js_not (Some (JString s)) = (s = [])"
| "js_not (Some JObject) = False"

section \<open>The download of the design image (downloadImage.js)\<close>

text \<open>
  The network is outside the program: \<open>fetch url\<close> is what the request for that address
  ends in, either the message of the error it throws or the response. An address on
  figma.com is first turned into the address of an image by
  \<open>convertFigmaUrlToImageUrl\<close>, which questions figma.com in two ways; its outcome is taken
  as given, the message of the error it throws or the address found.
\<close>

record fetch_response =
  response_status :: nat
  response_statusText :: string
  response_contentType :: "string option"
  response_body :: content

datatype fetch_outcome = FetchFailed string | Fetched fetch_response

definition response_ok :: "fetch_response \<Rightarrow> bool" where
  "response_ok response = (200 \<le> response_status response \<and> response_status response \<le> 299)"

fun str_includes :: "string \<Rightarrow> string \<Rightarrow> bool" where
  "str_includes [] t = (t = [])"
| "str_includes (c # cs) t = (take (length t) (c # cs) = t \<or> str_includes cs t)"

definition string_of :: "json option \<Rightarrow> string option" where
  \<comment> \<open>the text of a value that passes \<open>!x || typeof x !== 'string'\<close> as false\<close>
  "string_of x = (case x of Some (JString s) \<Rightarrow> if s = [] then None else Some s | _ \<Rightarrow> None)"

definition download_steps ::
  "(string \<Rightarrow> fetch_outcome) \<Rightarrow> (string \<Rightarrow> string + string) \<Rightarrow> json option \<Rightarrow> path \<Rightarrow> world
     \<Rightarrow> (string + unit) \<times> world" where
  \<comment> \<open>the body of the \<open>try\<close> block: \<open>Inl\<close> carries the message of the error thrown\<close>
  "download_steps fetch convertFigmaUrlToImageUrl imageUrl outputPath w =
     (case string_of imageUrl of
        None \<Rightarrow> (Inl ''Invalid image URL provided'', w)
      | Some url \<Rightarrow>
        (case (if str_includes url ''figma.com'' then convertFigmaUrlToImageUrl url
               else Inr url) of
           Inl msg \<Rightarrow> (Inl msg, w)
         | Inr finalImageUrl \<Rightarrow>
             (case fetch finalImageUrl of
                FetchFailed msg \<Rightarrow> (Inl msg, w)
              | Fetched response \<Rightarrow>
                  (if \<not> response_ok response then
                     (Inl (''Failed to download image: '' @ decimal (response_status response)
                           @ '' '' @ response_statusText response), w)
                   else
                     (case response_contentType response of
                        None \<Rightarrow>
                          (Inl (''URL does not point to an image. Content-Type: '' @ ''null''), w)
                      | Some contentType \<Rightarrow>
                          (if take 6 contentType \<noteq> ''image/'' then
                             (Inl (''URL does not point to an image. Content-Type: ''
                                   @ contentType), w)
                           else
                             (case writeFileSync w outputPath (response_body response) of
                                Inl (Error msg) \<Rightarrow> (Inl msg, w)
                              | Inr w1 \<Rightarrow>
                                  (if response_body response = Blob [] then
                                     (Inl ''Downloaded image file is empty'', w1)
                                   else (Inr (), w1)))))))))"

definition downloadImage ::
  "(string \<Rightarrow> fetch_outcome) \<Rightarrow> (string \<Rightarrow> string + string) \<Rightarrow> json option \<Rightarrow> path \<Rightarrow> world
     \<Rightarrow> (js_error + unit) \<times> world" where
  "downloadImage fetch convertFigmaUrlToImageUrl imageUrl outputPath w =
     (case download_steps fetch convertFigmaUrlToImageUrl imageUrl outputPath w of
        (Inl msg, w') \<Rightarrow> (Inl (Error (''Failed to download image: '' @ msg)), w')
      | (Inr u, w') \<Rightarrow> (Inr u, w'))"

section \<open>The screenshot (screenshot.js)\<close>

text \<open>
  The headless browser is outside the program: \<open>browser pageUrl\<close> is what the session
  for that URL ends in, either the message of the error it throws (launch, navigation, a
  response that is not ok, capture) or the file it writes to \<open>outputPath\<close>.
\<close>

definition takeScreenshot ::
  "(string \<Rightarrow> string + content) \<Rightarrow> json option \<Rightarrow> path \<Rightarrow> world \<Rightarrow> (js_error + unit) \<times> world" where
  "takeScreenshot browser pageUrl outputPath w =
     (case string_of pageUrl of
        None \<Rightarrow>
          (Inl (Error (''Failed to take screenshot: '' @ ''Invalid page URL provided'')), w)
      | Some url \<Rightarrow>
          (case browser url of
             Inl msg \<Rightarrow> (Inl (Error (''Failed to take screenshot: '' @ msg)), w)
           | Inr shot \<Rightarrow>
               (case writeFileSync w outputPath shot of
                  Inl (Error msg) \<Rightarrow> (Inl (Error (''Failed to take screenshot: '' @ msg)), w)
                | Inr w1 \<Rightarrow>
                    (if shot = Blob [] then
                       (Inl (Error (''Failed to take screenshot: ''
                                    @ ''Screenshot file is empty'')), w1)
                     else (Inr (), w1)))))"

section \<open>The server (server.js)\<close>

text \<open>
  What the handlers reach outside the program: the comparison library, the network, the
  browser, and the directory of the server script.
\<close>

record env =
  resemble :: library
  fetch :: "string \<Rightarrow> fetch_outcome"
  convertFigmaUrlToImageUrl :: "string \<Rightarrow> string + string"
  browser :: "string \<Rightarrow> string + content"
  server_dirname :: path

record report =
  matchScore :: string
  diffImagePath' :: string
  misMatchPercentage' :: string
  analysisTime' :: timestamp
  originalImages :: "string \<times> string"

datatype response_body =
    ErrorBody string string  \<comment> \<open>the fields \<open>error\<close> and \<open>message\<close>\<close>
  | ReportBody report

record http_response =
  http_status :: nat
  body :: response_body

definition build_response :: "timestamp \<Rightarrow> comparison_result \<Rightarrow> report" where
  \<comment> \<open>the object literal \<open>response\<close> of both handlers; \<open>now\<close> is what \<open>new Date()\<close> reads
      there. \<open>parseFloat\<close> of a number gives the number back, \<open>NaN\<close> included.\<close>
  "build_response now comparisonResult =
     \<lparr>matchScore = toFixed2 (js_sub (Num 100) (misMatchPercentage comparisonResult)),
      diffImagePath' = ''/diff.png'',
      misMatchPercentage' = toFixed2 (misMatchPercentage comparisonResult),
      analysisTime' = now,
      originalImages = (''/figma.png'', ''/code.png'')\<rparr>"

definition error_response :: "nat \<Rightarrow> string \<Rightarrow> string \<Rightarrow> http_response" where
  \<comment> \<open>\<open>res.status(code).json({ error, message })\<close>; the development-only \<open>stack\<close> is left out\<close>
  "error_response code err msg = \<lparr>http_status = code, body = ErrorBody err msg\<rparr>"

text \<open>
  A request to \<open>/compare\<close> either has a body that the JSON middleware refuses, with the
  message of its error, or has a JSON body and reaches the handler, which reads the two
  fields \<open>figmaImageUrl\<close> and \<open>pageUrl\<close> of it, each absent or a JSON value.
\<close>

record compare_body =
  figmaImageUrl :: "json option"
  pageUrl :: "json option"

datatype compare_request = Unparsable string | Body compare_body

definition compare_handler ::
  "env \<Rightarrow> timestamp \<Rightarrow> timestamp \<Rightarrow> compare_body \<Rightarrow> world \<Rightarrow> http_response \<times> world" where
  \<comment> \<open>the route handler of \<open>app.post('/compare')\<close>; \<open>t_compare\<close> and \<open>t_respond\<close> are the
      clock readings in \<open>compareImages\<close> and at step 4\<close>
  "compare_handler env t_compare t_respond req w =
     (if js_not (figmaImageUrl req) \<or> js_not (pageUrl req) then
        (error_response 400 ''Missing required parameters''
           ''Both figmaImageUrl and pageUrl are required'', w)
      else
        (let assetsDir = path_join (server_dirname env) ''assets'';
             figmaImagePath = path_join assetsDir ''figma.png'';
             codeImagePath = path_join assetsDir ''code.png''
         in (case downloadImage (fetch env) (convertFigmaUrlToImageUrl env)
                    (figmaImageUrl req) figmaImagePath w of
               (Inl (Error msg), w1) \<Rightarrow> (error_response 500 ''Comparison failed'' msg, w1)
             | (Inr _, w1) \<Rightarrow>
                 (case takeScreenshot (browser env) (pageUrl req) codeImagePath w1 of
                    (Inl (Error msg), w2) \<Rightarrow> (error_response 500 ''Comparison failed'' msg, w2)
                  | (Inr _, w2) \<Rightarrow>
                      (case compareImages (resemble env) t_compare figmaImagePath codeImagePath
                              no_options w2 of
                         (Inl (Error msg), w3) \<Rightarrow>
                           (error_response 500 ''Comparison failed'' msg, w3)
                       | (Inr comparisonResult, w3) \<Rightarrow>
                           (\<lparr>http_status = 200,
                             body = ReportBody (build_response t_respond comparisonResult)\<rparr>,
                            w3))))))"

definition handle_compare ::
  "env \<Rightarrow> timestamp \<Rightarrow> timestamp \<Rightarrow> compare_request \<Rightarrow> world \<Rightarrow> http_response \<times> world" where
  \<comment> \<open>\<open>app.use(express.json())\<close>, then the route: the error of the middleware goes to the
      error-handling middleware\<close>
  "handle_compare env t_compare t_respond request w =
     (case request of
        Unparsable msg \<Rightarrow> (error_response 500 ''Internal server error'' msg, w)
      | Body req \<Rightarrow> compare_handler env t_compare t_respond req w)"

record upload =
  originalname :: string
  mimetype :: string
  uploaded :: content

record compare_file_request =
  figmaImage :: "upload option"
  filePageUrl :: "string option"

definition fs_copy :: "world \<Rightarrow> path \<Rightarrow> path \<Rightarrow> js_error + world" where
  "fs_copy w src dest =
     (case files w src of
        None \<Rightarrow>
          Inl (Error (''ENOENT: no such file or directory, lstat ''
                      @ [CHR 0x27] @ src @ [CHR 0x27]))
      | Some c \<Rightarrow> writeFileSync w dest c)"

definition fs_remove :: "world \<Rightarrow> path \<Rightarrow> world" where
  "fs_remove w p = w\<lparr>files := (files w)(p := None)\<rparr>"

definition compare_file_handler ::
  "env \<Rightarrow> timestamp \<Rightarrow> timestamp \<Rightarrow> path option \<Rightarrow> string option \<Rightarrow> world
     \<Rightarrow> http_response \<times> world" where
  \<comment> \<open>the route handler proper; \<open>uploadedFile\<close> is \<open>req.file.path\<close> when the upload was stored\<close>
  "compare_file_handler env t_compare t_respond uploadedFile page w =
     (case uploadedFile of
        None \<Rightarrow>
          (error_response 400 ''Missing required parameters''
             ''Both figmaImage file and pageUrl are required'', w)
      | Some uploadedPath \<Rightarrow>
          (if js_not (map_option JString page) then
             (error_response 400 ''Missing required parameters''
                ''Both figmaImage file and pageUrl are required'', w)
           else
             (let assetsDir = path_join (server_dirname env) ''assets'';
                  figmaImagePath = path_join assetsDir ''figma.png'';
                  codeImagePath = path_join assetsDir ''code.png''
              in (case fs_copy w uploadedPath figmaImagePath of
                    Inl (Error msg) \<Rightarrow>
                      (error_response 500 ''File upload comparison failed'' msg, w)
                  | Inr w1 \<Rightarrow>
                      (case takeScreenshot (browser env) (map_option JString page)
                              codeImagePath w1 of
                         (Inl (Error msg), w2) \<Rightarrow>
                           (error_response 500 ''File upload comparison failed'' msg, w2)
                       | (Inr _, w2) \<Rightarrow>
                           (case compareImages (resemble env) t_compare figmaImagePath
                                   codeImagePath no_options w2 of
                              (Inl (Error msg), w3) \<Rightarrow>
                                (error_response 500 ''File upload comparison failed'' msg, w3)
                            | (Inr comparisonResult, w3) \<Rightarrow>
                                (\<lparr>http_status = 200,
                                  body = ReportBody (build_response t_respond comparisonResult)\<rparr>,
                                 fs_remove w3 uploadedPath)))))))"

definition handle_compare_file ::
  "env \<Rightarrow> timestamp \<Rightarrow> timestamp \<Rightarrow> compare_file_request \<Rightarrow> world \<Rightarrow> http_response \<times> world" where
  \<comment> \<open>\<open>app.post('/compare-file', upload.single('figmaImage'), \<dots>)\<close>: the upload middleware
      stores an image file as \<open>assets/figma-upload.png\<close> and hands any other file to the
      error-handling middleware\<close>
  "handle_compare_file env t_compare t_respond req w =
     (case figmaImage req of
        None \<Rightarrow> compare_file_handler env t_compare t_respond None (filePageUrl req) w
      | Some file \<Rightarrow>
          (if take 6 (mimetype file) \<noteq> ''image/'' then
             (error_response 500 ''Internal server error'' ''Only image files are allowed'', w)
           else
             (let uploadPath =
                    path_join (path_join (server_dirname env) ''assets'') ''figma-upload.png''
              in (case writeFileSync w uploadPath (uploaded file) of
                    Inl (Error msg) \<Rightarrow> (error_response 500 ''Internal server error'' msg, w)
                  | Inr w0 \<Rightarrow>
                      compare_file_handler env t_compare t_respond (Some uploadPath)
                        (filePageUrl req) w0))))"

section \<open>A concrete run\<close>

text \<open>
  A small world and stand-ins for the outside parts, on which the model is run: a design
  image of 1 by 1 pixel and a screenshot of 2 by 2 pixels; a library that, given two files
  that are images, reports a mismatch of 12.45 percent, equal dimensions only for two equal
  files and a size difference of one pixel each way, and returns a diff image of 2 by 2
  pixels, and that, given a file that is not an image, passes an object holding only
  \<open>error\<close>; a network that serves the design image at every address and a browser that
  captures the screenshot.
\<close>

definition figma_png :: content where
  "figma_png = Image \<lparr>width = 1, height = 1, pixels = [(255, 0, 0, 255)]\<rparr>"

definition code_png :: content where
  "code_png = Image \<lparr>width = 2, height = 2, pixels = replicate 4 (0, 0, 255, 255)\<rparr>"

definition diff_png :: content where
  "diff_png = Image \<lparr>width = 2, height = 2, pixels = replicate 4 (255, 0, 255, 255)\<rparr>"

definition load_error :: resemble_data where
  "load_error =
     \<lparr>data_error = Some ''Image load error.'',
      data_misMatchPercentage = None,
      data_rawMisMatchPercentage = None,
      data_isSameDimensions = None,
      data_dimensionDifference = None,
      data_diffBounds = None,
      data_analysisTime = None,
      data_getBuffer = None\<rparr>"

definition is_image :: "content option \<Rightarrow> bool" where
  "is_image c = (case c of Some (Image _) \<Rightarrow> True | _ \<Rightarrow> False)"

definition sample_resemble :: library where
  "sample_resemble call =
     (if is_image (image1 call) \<and> is_image (image2 call) then
        \<lparr>data_error = None,
         data_misMatchPercentage = Some (Num (fl (1245 / 100))),
         data_rawMisMatchPercentage = Some (Num (fl (1245 / 100))),
         data_isSameDimensions = Some (image1 call = image2 call),
         data_dimensionDifference = Some (- 1, - 1),
         data_diffBounds = Some (0, 0, 2, 2),
         data_analysisTime = Some 7,
         data_getBuffer = Some diff_png\<rparr>
      else load_error)"

definition sample_world :: world where
  "sample_world =
     \<lparr>files = [''assets/figma.png'' \<mapsto> figma_png, ''assets/code.png'' \<mapsto> code_png],
      readonly = {},
      resemble_calls = []\<rparr>"

definition empty_world :: world where
  "empty_world = \<lparr>files = Map.empty, readonly = {}, resemble_calls = []\<rparr>"

definition sample_env :: env where
  "sample_env =
     \<lparr>resemble = sample_resemble,
      fetch = (\<lambda>url. Fetched \<lparr>response_status = 200, response_statusText = ''OK'',
                               response_contentType = Some ''image/png'',
                               response_body = figma_png\<rparr>),
      convertFigmaUrlToImageUrl = (\<lambda>figmaUrl. Inr ''https://cdn.example/design.png''),
      browser = (\<lambda>pageUrl. Inr code_png),
      server_dirname = ''/srv/backend''\<rparr>"


definition undecodable_env :: env where
  \<comment> \<open>the same, with bytes that are no image served under the type \<open>image/png\<close>\<close>
  "undecodable_env =
     sample_env\<lparr>fetch := (\<lambda>url. Fetched \<lparr>response_status = 200, response_statusText = ''OK'',
                                          response_contentType = Some ''image/png'',
                                          response_body = Blob [1, 2, 3]\<rparr>)\<rparr>"

definition dimensions :: "content \<Rightarrow> (nat \<times> nat) option" where
  "dimensions c = (case c of Image r \<Rightarrow> Some (width r, height r) | Blob _ \<Rightarrow> None)"

definition sample_body :: compare_body where
  "sample_body =
     \<lparr>figmaImageUrl = Some (JString ''https://design.example/home.png''),
      pageUrl = Some (JString ''https://example.com/'')\<rparr>"

definition sample_request :: compare_request where
  "sample_request = Body sample_body"

definition scale_off :: options where
  "scale_off = \<lparr>opt_output = None, opt_scaleToSameSize = Some False, opt_ignore = None\<rparr>"

definition sample_result :: "number \<Rightarrow> comparison_result" where
  "sample_result m =
     \<lparr>misMatchPercentage = m, isSameDimensions = Some True, dimensionDifference = Some (0, 0),
      analysisTime = 5, diffImagePath = ''assets/diff.png'',
      rawData = \<lparr>rawMisMatchPercentage = m, diffBounds = Some (0, 0, 0, 0),
                 library_analysisTime = Some 1\<rparr>\<rparr>"

section \<open>Facts about the model\<close>

subsection \<open>Rounding to the nearest double\<close>

lemma rne_error: "\<bar>of_int (rne y) - y\<bar> \<le> 1 / 2"
proof -
  have lo: "of_int \<lfloor>y\<rfloor> \<le> y" and hi: "y < of_int \<lfloor>y\<rfloor> + 1"
    by linarith+
  show ?thesis
    unfolding rne_def Let_def using lo hi by (auto simp: abs_le_iff)
qed

lemma rne_nonneg: "0 \<le> y \<Longrightarrow> 0 \<le> rne y"
  unfolding rne_def Let_def by auto

lemma expo_lower:
  assumes "x \<noteq> 0"
  shows "2 powi (expo x) \<le> \<bar>x\<bar>"
proof (cases "1 \<le> \<bar>x\<bar>")
  case True
  define n where "n = \<lfloor>\<bar>x\<bar>\<rfloor>"
  have n1: "1 \<le> n" using True by (simp add: n_def le_floor_iff)
  have "(2::int) ^ nat (bitlen n - 1) \<le> n"
    using bitlen_bounds [of n] n1 by simp
  then have "of_int ((2::int) ^ nat (bitlen n - 1)) \<le> (of_int n :: rat)"
    by (simp only: of_int_le_iff)
  also have "(of_int n :: rat) \<le> \<bar>x\<bar>" by (simp add: n_def)
  finally have "(2::rat) ^ nat (bitlen n - 1) \<le> \<bar>x\<bar>" by simp
  moreover have "0 \<le> bitlen n - 1"
    using n1 bitlen_ge_iff_power [of 1 n] by simp
  ultimately show ?thesis
    using True by (simp add: expo_def n_def power_int_def)
next
  case False
  define k where "k = \<lceil>1 / \<bar>x\<bar>\<rceil>"
  have xpos: "0 < \<bar>x\<bar>" using assms by simp
  have inv: "1 < 1 / \<bar>x\<bar>" using False xpos by (simp add: field_simps)
  have k2: "2 \<le> k" using inv by (simp add: k_def le_ceiling_iff)
  have "k - 1 < 2 ^ nat (bitlen (k - 1))"
    using bitlen_bounds [of "k - 1"] k2 by simp
  then have "k \<le> 2 ^ nat (bitlen (k - 1))" by simp
  then have "(of_int k :: rat) \<le> of_int (2 ^ nat (bitlen (k - 1)))"
    by (simp only: of_int_le_iff)
  then have "(of_int k :: rat) \<le> 2 ^ nat (bitlen (k - 1))" by simp
  moreover have "1 / \<bar>x\<bar> \<le> of_int k" by (simp add: k_def)
  ultimately have "1 / \<bar>x\<bar> \<le> 2 ^ nat (bitlen (k - 1))" by (rule order_trans [rotated])
  then have "1 / 2 ^ nat (bitlen (k - 1)) \<le> \<bar>x\<bar>"
    using xpos by (simp add: field_simps)
  moreover have "(2::rat) powi (- bitlen (k - 1)) = 1 / 2 ^ nat (bitlen (k - 1))"
    using bitlen_nonneg [of "k - 1"] by (simp add: power_int_minus power_int_def field_simps)
  ultimately show ?thesis
    using False by (simp add: expo_def k_def)
qed

lemma fl_error:
  assumes "\<bar>x\<bar> < 128"
  shows "\<bar>fl x - x\<bar> \<le> 2 powi (- 47)"
proof (cases "x = 0")
  case True
  then show ?thesis by (simp add: fl_def)
next
  case False
  define e where "e = max (expo x) (- 1022)"
  define q :: rat where "q = 2 powi (e - 52)"
  have qpos: "0 < q" by (simp add: q_def)
  have "(2::rat) powi (expo x) < 128"
    using expo_lower [OF False] assms by linarith
  also have "(128::rat) = 2 powi 7" by simp
  finally have "(2::rat) powi (expo x) < 2 powi 7" .
  then have "expo x < 7"
    by (rule power_int_le_imp_less_exp [rotated]) simp_all
  then have e6: "e \<le> 6" by (simp add: e_def)
  have "\<bar>of_int (rne (x / q)) - x / q\<bar> \<le> 1 / 2" by (rule rne_error)
  then have "\<bar>of_int (rne (x / q)) - x / q\<bar> * q \<le> 1 / 2 * q"
    using qpos by (simp only: mult_le_cancel_right_pos)
  moreover have "\<bar>of_int (rne (x / q)) - x / q\<bar> * q = \<bar>of_int (rne (x / q)) * q - x\<bar>"
  proof -
    have "\<bar>of_int (rne (x / q)) - x / q\<bar> * q = \<bar>(of_int (rne (x / q)) - x / q) * q\<bar>"
      using qpos by (simp add: abs_mult)
    also have "(of_int (rne (x / q)) - x / q) * q = of_int (rne (x / q)) * q - x"
      using qpos by (simp add: algebra_simps)
    finally show ?thesis .
  qed
  ultimately have err: "\<bar>of_int (rne (x / q)) * q - x\<bar> \<le> q / 2" by simp
  have "q \<le> 2 powi (6 - 52)"
    unfolding q_def using e6 by (intro power_int_increasing) simp_all
  moreover have "(2::rat) powi (6 - 52) / 2 = 2 powi (- 47)"
    by (simp add: power_int_minus)
  ultimately have "q / 2 \<le> 2 powi (- 47)" by linarith
  with err have "\<bar>of_int (rne (x / q)) * q - x\<bar> \<le> 2 powi (- 47)" by linarith
  then show ?thesis
    using False by (simp add: fl_def Let_def q_def e_def)
qed

lemma fl_nonneg: "0 \<le> x \<Longrightarrow> 0 \<le> fl x"
  by (simp add: fl_def Let_def rne_nonneg)

lemma ulp47: "(2::rat) powi (- 47) = 1 / 140737488355328"
  by (simp add: power_int_minus)

subsection \<open>The text of \<open>toFixed(2)\<close> and its value\<close>

lemma digit_chars:
  "digit_char 0 = CHR ''0''" "digit_char 1 = CHR ''1''" "digit_char 2 = CHR ''2''"
  "digit_char 3 = CHR ''3''" "digit_char 4 = CHR ''4''" "digit_char 5 = CHR ''5''"
  "digit_char 6 = CHR ''6''" "digit_char 7 = CHR ''7''" "digit_char 8 = CHR ''8''"
  "digit_char 9 = CHR ''9''" "digit_char (Suc 0) = CHR ''1''"
  by code_simp+

lemma of_char_digit_char: "d < 10 \<Longrightarrow> (of_char (digit_char d) :: nat) = 48 + d"
  by (simp add: digit_char_def)

lemma is_digit_digit_char: "d < 10 \<Longrightarrow> is_digit (digit_char d)"
  by (simp add: is_digit_def of_char_digit_char)

lemma decimal_digits: "list_all is_digit (decimal n)"
proof (induction n rule: decimal.induct)
  case (1 n)
  show ?case
  proof (cases "n < 10")
    case True
    then show ?thesis by (subst decimal.simps) (simp add: is_digit_digit_char)
  next
    case False
    then show ?thesis
      using "1.IH" by (subst decimal.simps) (simp add: is_digit_digit_char)
  qed
qed

lemma digits_value_snoc:
  "digits_value (ds @ [c]) = 10 * digits_value ds + ((of_char c :: nat) - 48)"
  by (simp add: digits_value_def)

lemma digits_value_decimal: "digits_value (decimal n) = n"
proof (induction n rule: decimal.induct)
  case (1 n)
  show ?case
  proof (cases "n < 10")
    case True
    then show ?thesis
      by (subst decimal.simps) (simp add: digits_value_def of_char_digit_char)
  next
    case False
    then show ?thesis
      using "1.IH"
      by (subst decimal.simps) (simp add: digits_value_snoc of_char_digit_char)
  qed
qed

lemma digits_value_zeros: "digits_value (replicate k CHR ''0'' @ ds) = digits_value ds"
proof -
  have "foldl (\<lambda>a c. 10 * a + ((of_char c :: nat) - 48)) 0 (replicate k CHR ''0'') = 0"
    by (induction k) simp_all
  then show ?thesis by (simp add: digits_value_def)
qed

lemma fixed2_value_shape:
  assumes "list_all is_digit ds" "2 < length ds"
  shows "fixed2_value ((if neg then ''-'' else []) @ take (length ds - 2) ds @ ''.'' @ drop (length ds - 2) ds)
         = Some ((if neg then - 1 else 1) * (of_nat (digits_value ds) / 100))"
proof -
  define ip where "ip = take (length ds - 2) ds"
  define fp where "fp = drop (length ds - 2) ds"
  have ds: "ds = ip @ fp" by (simp add: ip_def fp_def)
  have ip_ne: "ip \<noteq> []" using assms(2) by (auto simp: ip_def)
  have fp_len: "length fp = 2" using assms(2) by (simp add: fp_def)
  have ip_dig: "list_all is_digit ip" and fp_dig: "list_all is_digit fp"
    using assms(1) ds by simp_all
  have dot: "\<not> is_digit CHR ''.''" and minus: "\<not> is_digit CHR ''-''"
    by (simp_all add: is_digit_def)
  have hd_ip: "hd ip \<noteq> CHR ''-''"
    using ip_ne ip_dig minus by (cases ip) auto
  have tw: "takeWhile is_digit (ip @ CHR ''.'' # fp) = ip"
    using ip_dig dot by (simp add: list_all_iff)
  have dw: "dropWhile is_digit (ip @ CHR ''.'' # fp) = CHR ''.'' # fp"
    using ip_dig dot by (simp add: list_all_iff)
  show ?thesis
  proof (cases neg)
    case True
    then show ?thesis
      using tw dw ip_ne fp_len fp_dig
      by (simp add: fixed2_value_def Let_def ds ip_def [symmetric] fp_def [symmetric])
  next
    case False
    have "hd (ip @ CHR ''.'' # fp) \<noteq> CHR ''-''" using hd_ip ip_ne by simp
    then show ?thesis
      using False tw dw ip_ne fp_len fp_dig
      by (simp add: fixed2_value_def Let_def ds ip_def [symmetric] fp_def [symmetric])
  qed
qed

lemma fixed2_value_fixed2:
  "fixed2_value (fixed2 x) =
     Some ((if x < 0 then - 1 else 1) * (of_int \<lfloor>\<bar>x\<bar> * 100 + 1 / 2\<rfloor> / 100))"
proof -
  define n where "n = nat \<lfloor>\<bar>x\<bar> * 100 + 1 / 2\<rfloor>"
  define m where "m = decimal n"
  define m' where "m' = (if length m \<le> 2 then replicate (3 - length m) CHR ''0'' @ m else m)"
  have zero: "is_digit CHR ''0''" by (simp add: is_digit_def)
  have m_dig: "list_all is_digit m" by (simp add: m_def decimal_digits)
  have m'_dig: "list_all is_digit m'"
    using m_dig zero by (simp add: m'_def list_all_iff)
  have m'_len: "2 < length m'" by (simp add: m'_def)
  have val: "digits_value m' = n"
    by (simp add: m'_def digits_value_zeros m_def digits_value_decimal)
  have nonneg: "0 \<le> \<lfloor>\<bar>x\<bar> * 100 + 1 / 2\<rfloor>" by simp
  have "fixed2 x = (if x < 0 then ''-'' else []) @ take (length m' - 2) m' @ ''.'' @ drop (length m' - 2) m'"
    by (simp add: fixed2_def Let_def n_def m_def m'_def)
  then have "fixed2_value (fixed2 x) = Some ((if x < 0 then - 1 else 1) * (of_nat n / 100))"
    using fixed2_value_shape [OF m'_dig m'_len, of "x < 0"] val by simp
  moreover have "(of_nat n :: rat) = of_int \<lfloor>\<bar>x\<bar> * 100 + 1 / 2\<rfloor>"
    using nonneg by (simp add: n_def)
  ultimately show ?thesis by simp
qed

lemma fixed2_value_fixed2_nonneg:
  "0 \<le> x \<Longrightarrow> fixed2_value (fixed2 x) = Some (of_int \<lfloor>x * 100 + 1 / 2\<rfloor> / 100)"
  by (simp add: fixed2_value_fixed2)

lemma round_half_up_error: "\<bar>of_int \<lfloor>x * 100 + 1 / 2\<rfloor> / 100 - x\<bar> \<le> 1 / (200::rat)"
proof -
  define n where "n = \<lfloor>x * 100 + 1 / 2\<rfloor>"
  have "of_int n \<le> x * 100 + 1 / 2" and "x * 100 + 1 / 2 < of_int n + 1"
    unfolding n_def by linarith+
  then have "of_int n / 100 - x \<le> 1 / 200" and "- (1 / 200) \<le> of_int n / 100 - x"
    by linarith+
  then have "\<bar>of_int n / 100 - x\<bar> \<le> 1 / 200"
    by (rule abs_leI [OF _ minus_le_iff [THEN iffD1]])
  then show ?thesis by (simp only: n_def)
qed

lemma round_half_up_near:
  fixes y :: rat and k :: int
  assumes "\<bar>y - of_int k\<bar> < 1 / 2"
  shows "\<lfloor>y + 1 / 2\<rfloor> = k"
proof (rule floor_unique)
  show "of_int k \<le> y + 1 / 2" using assms by (simp only: abs_less_iff) linarith
  show "y + 1 / 2 < of_int k + 1" using assms by (simp only: abs_less_iff) linarith
qed


subsection \<open>What a successful comparison returns\<close>

lemma compareImages_Inr:
  assumes "compareImages lib now image1Path image2Path opts w = (Inr r, w')"
  shows "existsSync w image1Path \<and> existsSync w image2Path
       \<and> resemble_calls w' =
           resemble_calls w @ [resemble_request w image1Path image2Path (spread defaultOptions opts)]
       \<and> misMatchPercentage r = parseFloat (data_misMatchPercentage (lib (last (resemble_calls w'))))
       \<and> isSameDimensions r = data_isSameDimensions (lib (last (resemble_calls w')))
       \<and> dimensionDifference r = data_dimensionDifference (lib (last (resemble_calls w')))
       \<and> analysisTime r = now"
  using assms
  by (auto simp: compareImages_def Let_def writeFileSync_def
      split: if_splits option.splits sum.splits js_error.splits)

lemma compare_handler_report:
  assumes "compare_handler env t_compare t_respond req w = (resp, w')"
    and "body resp = ReportBody rep"
  shows "\<exists>r. rep = build_response t_respond r
           \<and> misMatchPercentage r =
               parseFloat (data_misMatchPercentage (resemble env (last (resemble_calls w'))))
           \<and> analysisTime r = t_compare \<and> http_status resp = 200"
  using assms
  by (auto simp: compare_handler_def Let_def error_response_def
      split: if_splits prod.splits sum.splits js_error.splits
      dest!: compareImages_Inr)

lemma handle_compare_report:
  assumes "handle_compare env t_compare t_respond req w = (resp, w')"
    and "body resp = ReportBody rep"
  shows "\<exists>r. rep = build_response t_respond r
           \<and> misMatchPercentage r =
               parseFloat (data_misMatchPercentage (resemble env (last (resemble_calls w'))))
           \<and> analysisTime r = t_compare \<and> http_status resp = 200"
  using assms
  by (auto simp: handle_compare_def error_response_def
      split: compare_request.splits dest: compare_handler_report)

lemma compare_file_handler_report:
  assumes "compare_file_handler env t_compare t_respond up page w = (resp, w')"
    and "body resp = ReportBody rep"
  shows "\<exists>r. rep = build_response t_respond r
           \<and> misMatchPercentage r =
               parseFloat (data_misMatchPercentage (resemble env (last (resemble_calls w'))))
           \<and> analysisTime r = t_compare \<and> http_status resp = 200"
  using assms
  by (auto simp: compare_file_handler_def Let_def error_response_def fs_remove_def
      split: if_splits option.splits prod.splits sum.splits js_error.splits
      dest!: compareImages_Inr)

lemma handle_compare_file_report:
  assumes "handle_compare_file env t_compare t_respond req w = (resp, w')"
    and "body resp = ReportBody rep"
  shows "\<exists>r. rep = build_response t_respond r
           \<and> misMatchPercentage r =
               parseFloat (data_misMatchPercentage (resemble env (last (resemble_calls w'))))
           \<and> analysisTime r = t_compare \<and> http_status resp = 200"
  using assms
  by (auto simp: handle_compare_file_def Let_def error_response_def
      split: if_splits option.splits sum.splits js_error.splits
      dest: compare_file_handler_report)

lemma handler_reports:
  assumes "handle_compare env t_compare t_respond req w = (resp, w')
         \<or> handle_compare_file env t_compare t_respond freq w = (resp, w')"
    and "body resp = ReportBody rep"
  shows "\<exists>r. rep = build_response t_respond r
           \<and> misMatchPercentage r =
               parseFloat (data_misMatchPercentage (resemble env (last (resemble_calls w'))))
           \<and> analysisTime r = t_compare \<and> http_status resp = 200"
  using assms handle_compare_report handle_compare_file_report by blast

subsection \<open>The numbers of a report built from a finite percentage\<close>

lemma sub_100:
  assumes "0 \<le> m" "m \<le> 100"
  shows "0 \<le> fl (100 - m)" and "\<bar>fl (100 - m) - (100 - m)\<bar> \<le> 1 / 140737488355328"
proof -
  show "0 \<le> fl (100 - m)" using assms by (simp add: fl_nonneg)
  have "\<bar>100 - m\<bar> < 128" using assms by (simp add: abs_less_iff)
  from fl_error [OF this] show "\<bar>fl (100 - m) - (100 - m)\<bar> \<le> 1 / 140737488355328"
    by (simp only: ulp47)
qed

lemma build_response_values:
  assumes "misMatchPercentage r = Num m" "0 \<le> m" "m \<le> 100"
  shows "fixed2_value (misMatchPercentage' (build_response now r))
           = Some (of_int \<lfloor>m * 100 + 1 / 2\<rfloor> / 100)"
    and "fixed2_value (matchScore (build_response now r))
           = Some (of_int \<lfloor>fl (100 - m) * 100 + 1 / 2\<rfloor> / 100)"
  using assms sub_100(1) [OF assms(2,3)]
  by (simp_all add: build_response_def fixed2_value_fixed2_nonneg)

lemma report_sum:
  fixes m x :: rat
  assumes "\<bar>x - (100 - m)\<bar> \<le> 1 / 140737488355328"
  shows "\<bar>of_int \<lfloor>x * 100 + 1 / 2\<rfloor> / 100 + of_int \<lfloor>m * 100 + 1 / 2\<rfloor> / 100 - 100\<bar> \<le> 1 / (100::rat)"
proof -
  define A where "A = \<lfloor>x * 100 + 1 / 2\<rfloor>"
  define B where "B = \<lfloor>m * 100 + 1 / 2\<rfloor>"
  have a: "of_int A \<le> x * 100 + 1 / 2" "x * 100 + 1 / 2 < of_int A + 1"
    unfolding A_def by linarith+
  have b: "of_int B \<le> m * 100 + 1 / 2" "m * 100 + 1 / 2 < of_int B + 1"
    unfolding B_def by linarith+
  have c: "x - (100 - m) \<le> 1 / 140737488355328" "- (1 / 140737488355328) \<le> x - (100 - m)"
    using assms by (simp_all only: abs_le_iff) linarith+
  have "(of_int (A + B - 10000) :: rat) < of_int 2"
    "(of_int (- 2) :: rat) < of_int (A + B - 10000)"
    using a b c by simp_all
  then have "A + B - 10000 < 2" "- 2 < A + B - 10000"
    by (simp_all only: of_int_less_iff)
  then have "\<bar>A + B - 10000\<bar> \<le> 1" by linarith
  then have "\<bar>(of_int (A + B - 10000) :: rat)\<bar> \<le> 1"
    by (simp only: of_int_abs [symmetric] of_int_le_1_iff)
  then have "\<bar>(of_int A :: rat) / 100 + of_int B / 100 - 100\<bar> \<le> 1 / 100"
    by (simp add: abs_le_iff field_simps)
  then show ?thesis by (simp only: A_def B_def)
qed

lemma report_exact:
  fixes m x :: rat and k :: int
  assumes k: "0 \<le> k" "k \<le> 10000"
    and m: "m = fl (of_int k / 100)"
    and x: "\<bar>x - (100 - m)\<bar> \<le> 1 / 140737488355328"
  shows "\<lfloor>m * 100 + 1 / 2\<rfloor> = k" and "\<lfloor>x * 100 + 1 / 2\<rfloor> = 10000 - k"
proof -
  have "\<bar>(of_int k :: rat) / 100\<bar> < 128" using k by (simp add: abs_less_iff)
  from fl_error [OF this] have e: "\<bar>m - of_int k / 100\<bar> \<le> 1 / 140737488355328"
    by (simp only: m ulp47)
  then have e': "m - of_int k / 100 \<le> 1 / 140737488355328"
    "- (1 / 140737488355328) \<le> m - of_int k / 100"
    by (simp_all only: abs_le_iff) linarith+
  have x': "x - (100 - m) \<le> 1 / 140737488355328" "- (1 / 140737488355328) \<le> x - (100 - m)"
    using x by (simp_all only: abs_le_iff) linarith+
  have "\<bar>m * 100 - of_int k\<bar> < 1 / 2"
    using e' by (simp only: abs_less_iff) (rule conjI; linarith)
  then show "\<lfloor>m * 100 + 1 / 2\<rfloor> = k" by (rule round_half_up_near)
  have "\<bar>x * 100 - of_int (10000 - k)\<bar> < 1 / 2"
    using e' x' by (simp only: abs_less_iff of_int_diff of_int_numeral) (rule conjI; linarith)
  then show "\<lfloor>x * 100 + 1 / 2\<rfloor> = 10000 - k" by (rule round_half_up_near)
qed

lemma clamp_percentage: "0 \<le> m \<Longrightarrow> m \<le> 100 \<Longrightarrow> clamp (100 - m) 0 100 = 100 - m"
  by (simp add: clamp_def)

text \<open>
  A report built from a finite mismatch percentage \<open>m\<close> between 0 and 100: read as
  decimal numbers, its score is \<open>clamp (100 - m) 0 100\<close> and its mismatch is \<open>m\<close>, up to
  the two roundings, and the two add up to 100 to within one hundredth; both are exact when
  \<open>m\<close> is the double nearest to a number of two decimals.
\<close>

lemma build_response_complement:
  assumes mm: "misMatchPercentage r = Num m" and range: "0 \<le> m" "m \<le> 100"
  shows "\<exists>a b. fixed2_value (matchScore (build_response now r)) = Some a
           \<and> fixed2_value (misMatchPercentage' (build_response now r)) = Some b
           \<and> \<bar>a - clamp (100 - m) 0 100\<bar> \<le> 1 / 200 + 2 powi (- 47)
           \<and> \<bar>b - m\<bar> \<le> 1 / 200
           \<and> \<bar>a + b - 100\<bar> \<le> 1 / 100
           \<and> (\<forall>k. 0 \<le> k \<and> k \<le> 10000 \<and> m = fl (of_int k / 100) \<longrightarrow>
                  a = clamp (100 - of_int k / 100) 0 100 \<and> b = of_int k / 100 \<and> a + b = 100)"
proof -
  define x where "x = fl (100 - m)"
  define a :: rat where "a = of_int \<lfloor>x * 100 + 1 / 2\<rfloor> / 100"
  define b :: rat where "b = of_int \<lfloor>m * 100 + 1 / 2\<rfloor> / 100"
  have xe: "\<bar>x - (100 - m)\<bar> \<le> 1 / 140737488355328"
    unfolding x_def by (rule sub_100(2) [OF range])
  have va: "fixed2_value (matchScore (build_response now r)) = Some a"
    and vb: "fixed2_value (misMatchPercentage' (build_response now r)) = Some b"
    using build_response_values [OF mm range, of now] by (simp_all add: a_def b_def x_def)
  have ea: "\<bar>a - x\<bar> \<le> 1 / 200" unfolding a_def by (rule round_half_up_error)
  have eb: "\<bar>b - m\<bar> \<le> 1 / 200" unfolding b_def by (rule round_half_up_error)
  have "\<bar>a - (100 - m)\<bar> \<le> \<bar>a - x\<bar> + \<bar>x - (100 - m)\<bar>" by linarith
  with ea xe have "\<bar>a - (100 - m)\<bar> \<le> 1 / 200 + 1 / 140737488355328" by linarith
  then have c1: "\<bar>a - clamp (100 - m) 0 100\<bar> \<le> 1 / 200 + 2 powi (- 47)"
    by (simp only: clamp_percentage [OF range] ulp47)
  have c2: "\<bar>a + b - 100\<bar> \<le> 1 / 100"
    unfolding a_def b_def by (rule report_sum [OF xe])
  have c3: "a = clamp (100 - of_int k / 100) 0 100 \<and> b = of_int k / 100 \<and> a + b = 100"
    if k: "0 \<le> k" "k \<le> 10000" and mk: "m = fl (of_int k / 100)" for k :: int
  proof -
    have "a = of_int (10000 - k) / 100" and bk: "b = of_int k / 100"
      using report_exact [OF k mk xe] by (simp_all add: a_def b_def)
    then have ak: "a = 100 - of_int k / 100" by simp
    have "(0::rat) \<le> of_int k / 100" "(of_int k :: rat) / 100 \<le> 100" using k by simp_all
    then have "clamp (100 - of_int k / 100) 0 100 = 100 - of_int k / (100::rat)"
      by (rule clamp_percentage)
    with ak bk show ?thesis by simp
  qed
  show ?thesis
    using va vb c1 eb c2 c3 by blast
qed

subsection \<open>Running the comparison on the sample world\<close>

lemma sample_files:
  "existsSync sample_world ''assets/figma.png''"
  "existsSync sample_world ''assets/code.png''"
  "\<not> existsSync sample_world ''assets/nope.png''"
  by (simp_all add: existsSync_def sample_world_def)

lemma sample_readonly: "readonly sample_world = {}"
  by (simp add: sample_world_def)

lemma sample_world_files:
  "files sample_world ''assets/figma.png'' = Some figma_png"
  "files sample_world ''assets/code.png'' = Some code_png"
  "files sample_world ''assets/diff.png'' = None"
  "resemble_calls sample_world = []"
  by (simp_all add: sample_world_def)

lemma sample_images: "is_image (Some figma_png)" "is_image (Some code_png)"
  by (simp_all add: is_image_def figma_png_def code_png_def)

lemma compareImages_sample:
  "\<exists>r w'. compareImages sample_resemble now ''assets/figma.png'' ''assets/code.png'' opts sample_world
            = (Inr r, w')
        \<and> misMatchPercentage r = Num (fl (1245 / 100)) \<and> analysisTime r = now"
  by (simp add: compareImages_def sample_files Let_def sample_resemble_def writeFileSync_def
      sample_readonly resemble_request_def sample_world_files sample_images parseFloat_def)

subsection \<open>Missing input files\<close>

text \<open>
  C10. When either input path does not name an existing file, \<open>compareImages\<close> fails with
  an error that says which image was not found (the first one when both are missing), and
  it returns the world as it found it: no file has been written, so no diff image, and the
  comparison library has not been called.
\<close>

theorem compareImages_missing_input:
  assumes "\<not> existsSync w image1Path \<or> \<not> existsSync w image2Path"
  shows "compareImages lib now image1Path image2Path opts w =
           (Inl (Error (''Image comparison failed: '' @
                   (if \<not> existsSync w image1Path then ''First image not found: '' @ image1Path
                    else ''Second image not found: '' @ image2Path))), w)"
  using assms by (auto simp: compareImages_def)

theorem compareImages_missing_input_witness:
  "\<not> existsSync sample_world ''assets/nope.png''
   \<and> compareImages sample_resemble 5 ''assets/figma.png'' ''assets/nope.png'' no_options sample_world
       = (Inl (Error ''Image comparison failed: Second image not found: assets/nope.png''),
          sample_world)"
proof -
  have h: "\<not> existsSync sample_world ''assets/figma.png'' \<or> \<not> existsSync sample_world ''assets/nope.png''"
    by (simp add: sample_files)
  show ?thesis
    using h compareImages_missing_input [OF h, of sample_resemble 5 no_options]
    by (simp add: sample_files)
qed

subsection \<open>Comparison against a tolerance\<close>

text \<open>
  C9. Whenever the comparison returns a result, \<open>compareImagesWithTolerance\<close> returns it
  extended with \<open>passed\<close>, which is true if and only if the mismatch percentage is at most
  the tolerance (so equality passes; for finite numbers this is the order of the numbers,
  and it is false when either is \<open>NaN\<close>), and with \<open>status\<close>, which is \<open>PASS\<close> exactly
  when \<open>passed\<close> is true and \<open>FAIL\<close> otherwise.
\<close>

theorem compareImagesWithTolerance_passed:
  assumes "compareImages lib now image1Path image2Path opts w = (Inr result, w')"
  shows "\<exists>out. compareImagesWithTolerance lib now image1Path image2Path tol opts w = (Inr out, w')
           \<and> misMatchPercentage out = misMatchPercentage result
           \<and> passed out = js_le (misMatchPercentage result) tol
           \<and> (\<forall>m t. misMatchPercentage result = Num m \<and> tol = Num t \<longrightarrow> passed out = (m \<le> t))
           \<and> (status out = ''PASS'') = passed out
           \<and> (status out = ''FAIL'') = (\<not> passed out)"
  using assms
  by (simp add: compareImagesWithTolerance_def Let_def comparison_result.extend_def
      tolerance_result.fields_def)

theorem compareImagesWithTolerance_passed_witness:
  "\<exists>out w'. compareImagesWithTolerance sample_resemble 5 ''assets/figma.png'' ''assets/code.png''
               (Num (fl (1245 / 100))) no_options sample_world = (Inr out, w')
           \<and> misMatchPercentage out = Num (fl (1245 / 100)) \<and> passed out \<and> status out = ''PASS''"
proof -
  obtain r w' where run:
    "compareImages sample_resemble 5 ''assets/figma.png'' ''assets/code.png'' no_options sample_world
       = (Inr r, w')"
    and mm: "misMatchPercentage r = Num (fl (1245 / 100))"
    using compareImages_sample [of 5 no_options] by blast
  show ?thesis
    using compareImagesWithTolerance_passed [OF run, of "Num (fl (1245 / 100))"] mm by auto
qed

subsection \<open>Running the server on the sample world\<close>

lemma sample_paths:
  "path_join (path_join ''/srv/backend'' ''assets'') ''figma.png'' = ''/srv/backend/assets/figma.png''"
  "path_join (path_join ''/srv/backend'' ''assets'') ''code.png'' = ''/srv/backend/assets/code.png''"
  "path_join (path_dirname ''/srv/backend/assets/figma.png'') ''diff.png'' = ''/srv/backend/assets/diff.png''"
  by code_simp+

lemma sample_address: "\<not> str_includes ''https://design.example/home.png'' ''figma.com''"
  by code_simp

lemma sample_body_fields:
  "figmaImageUrl sample_body = Some (JString ''https://design.example/home.png'')"
  "pageUrl sample_body = Some (JString ''https://example.com/'')"
  "\<not> js_not (figmaImageUrl sample_body)" "\<not> js_not (pageUrl sample_body)"
  "string_of (figmaImageUrl sample_body) = Some ''https://design.example/home.png''"
  "string_of (pageUrl sample_body) = Some ''https://example.com/''"
  by (simp_all add: sample_body_def string_of_def)

lemma downloadImage_sample:
  "downloadImage (fetch sample_env) (convertFigmaUrlToImageUrl sample_env)
     (Some (JString ''https://design.example/home.png'')) outputPath empty_world
   = (Inr (), empty_world\<lparr>files := (files empty_world)(outputPath \<mapsto> figma_png)\<rparr>)"
  by (simp add: downloadImage_def download_steps_def sample_address sample_env_def response_ok_def
      writeFileSync_def empty_world_def figma_png_def sample_body_fields string_of_def)

lemma downloadImage_undecodable:
  "downloadImage (fetch undecodable_env) (convertFigmaUrlToImageUrl undecodable_env)
     (Some (JString ''https://design.example/home.png'')) outputPath empty_world
   = (Inr (), empty_world\<lparr>files := (files empty_world)(outputPath \<mapsto> Blob [1, 2, 3])\<rparr>)"
  by (simp add: downloadImage_def download_steps_def sample_address undecodable_env_def
      sample_env_def response_ok_def writeFileSync_def empty_world_def sample_body_fields
      string_of_def)



lemma sample_run_body:
  "\<exists>r. body (fst (handle_compare sample_env t_compare t_respond sample_request empty_world)) =
     ReportBody (build_response t_respond r)"
  by (simp add: handle_compare_def compare_handler_def sample_request_def sample_body_fields Let_def
      downloadImage_sample)
    (simp add: sample_env_def sample_paths takeScreenshot_def writeFileSync_def empty_world_def
      compareImages_def existsSync_def code_png_def figma_png_def sample_body_fields string_of_def
      sample_resemble_def is_image_def resemble_request_def Let_def,
     rule exI, rule refl)

subsection \<open>A design image that cannot be decoded\<close>

lemma undecodable_run:
  "fst (handle_compare undecodable_env 5 6 sample_request empty_world) =
     \<lparr>http_status = 200,
      body = ReportBody \<lparr>matchScore = ''NaN'', diffImagePath' = ''/diff.png'',
               misMatchPercentage' = ''NaN'', analysisTime' = 6,
               originalImages = (''/figma.png'', ''/code.png'')\<rparr>\<rparr>"
  by (simp add: handle_compare_def compare_handler_def sample_request_def sample_body_fields Let_def
      downloadImage_undecodable)
    (simp add: undecodable_env_def sample_env_def sample_paths takeScreenshot_def writeFileSync_def
      empty_world_def compareImages_def existsSync_def code_png_def sample_body_fields string_of_def
      sample_resemble_def is_image_def resemble_request_def load_error_def parseFloat_def
      build_response_def Let_def)

lemma fixed2_value_NaN: "fixed2_value ''NaN'' = None"
  by (simp add: fixed2_value_def is_digit_def)

text \<open>
  C1. The claim asks that the score of every report the server returns be
  \<open>clamp (100 - m) 0 100\<close> and add up to 100 with the mismatch. It holds of every report
  built from a number between 0 and 100 (\<open>build_response_complement\<close>), and fails on this
  request: the design image is fetched and stored, but its bytes are no image, so the
  library reports an error and no percentage. \<open>compareImages\<close> does not look at
  \<open>data.error\<close>, \<open>parseFloat\<close> of the missing field is \<open>NaN\<close>, and the server answers
  with status 200 and a report whose score and mismatch are both the text \<open>NaN\<close>.
\<close>

theorem undecodable_design_score_is_NaN:
  "fst (handle_compare undecodable_env 5 6 sample_request empty_world) =
     \<lparr>http_status = 200,
      body = ReportBody \<lparr>matchScore = ''NaN'', diffImagePath' = ''/diff.png'',
               misMatchPercentage' = ''NaN'', analysisTime' = 6,
               originalImages = (''/figma.png'', ''/code.png'')\<rparr>\<rparr>"
  by (rule undecodable_run)

text \<open>
  C4. The claim asks that every report carry both percentages with exactly two decimal
  digits. It holds of every report built from a number between 0 and 100
  (\<open>build_response_values\<close>, \<open>round_half_up_error\<close>), and fails on the same request, for
  the same reason: the report is returned, and neither of its two strings is a number with
  two decimals.
\<close>

theorem undecodable_design_no_decimals:
  "\<exists>rep. body (fst (handle_compare undecodable_env 5 6 sample_request empty_world)) = ReportBody rep
     \<and> misMatchPercentage' rep = ''NaN'' \<and> fixed2_value (misMatchPercentage' rep) = None
     \<and> matchScore rep = ''NaN'' \<and> fixed2_value (matchScore rep) = None"
  by (simp add: undecodable_run fixed2_value_NaN)

subsection \<open>The floating-point subtraction shows in the report\<close>

lemma fl_3_200: "fl (3 / 200) = 1080863910568919 / 72057594037927936"
  by code_simp

lemma fl_sub_3_200:
  "fl (100 - 1080863910568919 / 72057594037927936) = 7035818886603735 / 70368744177664"
  by code_simp

lemma decimal_9998: "decimal 9998 = ''9998''"
  by (simp add: decimal.simps [of 9998] decimal.simps [of 999] decimal.simps [of 99]
      decimal.simps [of 9] digit_chars)

lemma decimal_9999: "decimal 9999 = ''9999''"
  by (simp add: decimal.simps [of 9999] decimal.simps [of 999] decimal.simps [of 99]
      decimal.simps [of 9] digit_chars)

lemma decimal_1: "decimal (Suc 0) = ''1''"
  by (simp add: decimal.simps [of "Suc 0"] digit_chars)

lemma floors_3_200:
  "\<lfloor>(1080863910568919 / 72057594037927936 :: rat) * 100 + 1 / 2\<rfloor> = 1"
  "\<lfloor>(7035818886603735 / 70368744177664 :: rat) * 100 + 1 / 2\<rfloor> = 9998"
  "\<lfloor>(100 - 1080863910568919 / 72057594037927936 :: rat) * 100 + 1 / 2\<rfloor> = 9999"
  by (rule floor_unique; simp)+

lemma fixed2_render:
  assumes "0 \<le> x" and "\<lfloor>x * 100 + 1 / 2\<rfloor> = k" and "decimal (nat k) = ds"
  shows "fixed2 x =
     (let m' = (if length ds \<le> 2 then replicate (3 - length ds) CHR ''0'' @ ds else ds)
      in take (length m' - 2) m' @ ''.'' @ drop (length m' - 2) m')"
  using assms by (simp add: fixed2_def Let_def)

lemma fixed2_0015:
  "fixed2 (1080863910568919 / 72057594037927936) = ''0.01''"
  "fixed2 (7035818886603735 / 70368744177664) = ''99.98''"
  "fixed2 (100 - 1080863910568919 / 72057594037927936) = ''99.99''"
  using fixed2_render [OF _ floors_3_200(1), of "''1''"]
    fixed2_render [OF _ floors_3_200(2), of "''9998''"]
    fixed2_render [OF _ floors_3_200(3), of "''9999''"]
  by (simp_all add: decimal_9998 decimal_9999 decimal_1)

lemma report_of_0015:
  "misMatchPercentage' (build_response 6 (sample_result (Num (fl (3 / 200))))) = ''0.01''"
  "matchScore (build_response 6 (sample_result (Num (fl (3 / 200))))) = ''99.98''"
  "fixed2 (100 - fl (3 / 200)) = ''99.99''"
  by (simp_all only: build_response_def sample_result_def fl_3_200 fl_sub_3_200 fixed2_0015
      comparison_result.simps report.simps js_sub.simps toFixed2.simps)

subsection \<open>The timestamp of a report\<close>

text \<open>
  A timestamp is kept as the reading of the clock in milliseconds, which \<open>toISOString\<close>
  renders as text, one text for each reading.

  C7. The \<open>analysisTime\<close> of every report returned by either endpoint is the reading of
  the clock when the response is built, \<open>t_respond\<close>. The reading \<open>t_compare\<close> taken
  when the comparison completed stays in the comparison result and has no part in the
  report: the report is the same whatever that field holds. Building a report from the same
  comparison result at another reading of the clock gives that other reading as timestamp,
  so two reports built at different readings carry different timestamps.
\<close>

theorem report_timestamp_at_response:
  assumes run: "handle_compare env t_compare t_respond req w = (resp, w')
              \<or> handle_compare_file env t_compare t_respond freq w = (resp, w')"
    and rep: "body resp = ReportBody rep"
  shows "analysisTime' rep = t_respond
       \<and> (\<exists>r. analysisTime r = t_compare \<and> rep = build_response t_respond r
              \<and> (\<forall>s. build_response t_respond (r\<lparr>analysisTime := s\<rparr>) = rep)
              \<and> (\<forall>t. analysisTime' (build_response t r) = t)
              \<and> (\<forall>t. t \<noteq> t_respond \<longrightarrow>
                     analysisTime' (build_response t r) \<noteq> analysisTime' rep))"
proof -
  obtain r where r: "rep = build_response t_respond r" and t: "analysisTime r = t_compare"
    using handler_reports [OF run rep] by blast
  show ?thesis
    using r t by (auto simp: build_response_def)
qed

theorem report_timestamp_at_response_witness:
  "\<exists>resp w' rep r. handle_compare sample_env 5 6 sample_request empty_world = (resp, w')
      \<and> body resp = ReportBody rep
      \<and> analysisTime' rep = 6 \<and> analysisTime r = 5 \<and> rep = build_response 6 r
      \<and> analysisTime' (build_response 9 r) = 9"
proof -
  obtain resp w' where run: "handle_compare sample_env 5 6 sample_request empty_world = (resp, w')"
    by (cases "handle_compare sample_env 5 6 sample_request empty_world")
  obtain rep where rep: "body resp = ReportBody rep"
    using sample_run_body [of 5 6] run by auto
  from report_timestamp_at_response [OF disjI1 [OF run] rep]
  obtain r where "analysisTime' rep = 6" "analysisTime r = 5" "rep = build_response 6 r"
    "\<forall>t. analysisTime' (build_response t r) = t"
    by blast
  with run rep show ?thesis by blast
qed

subsection \<open>The status of a response\<close>




subsection \<open>Images of different dimensions\<close>

lemma sample_diff_path:
  "path_join (path_dirname ''assets/figma.png'') ''diff.png'' = ''assets/diff.png''"
  by code_simp

text \<open>
  C2, as stated, fails: with \<open>scaleToSameSize\<close> set to false and a design image of 1 by 1
  pixel against a screenshot of 2 by 2, \<open>compareImages\<close> hands the flag to the library,
  returns a result and writes the diff image, which was not there before.
\<close>

theorem scale_off_no_dimension_failure:
  "fst (compareImages sample_resemble 5 ''assets/figma.png'' ''assets/code.png'' scale_off sample_world)
     = Inr \<lparr>misMatchPercentage = Num (fl (1245 / 100)), isSameDimensions = Some False,
             dimensionDifference = Some (- 1, - 1), analysisTime = 5,
             diffImagePath = ''assets/diff.png'',
             rawData = \<lparr>rawMisMatchPercentage = Num (fl (1245 / 100)),
                        diffBounds = Some (0, 0, 2, 2), library_analysisTime = Some 7\<rparr>\<rparr>
   \<and> files (snd (compareImages sample_resemble 5 ''assets/figma.png'' ''assets/code.png'' scale_off
         sample_world)) ''assets/diff.png'' = Some diff_png
   \<and> map scaleToSameSize_arg (resemble_calls (snd (compareImages sample_resemble 5
         ''assets/figma.png'' ''assets/code.png'' scale_off sample_world))) = [False]
   \<and> files sample_world ''assets/figma.png'' = Some figma_png
   \<and> files sample_world ''assets/code.png'' = Some code_png
   \<and> dimensions figma_png = Some (1, 1) \<and> dimensions code_png = Some (2, 2)
   \<and> files sample_world ''assets/diff.png'' = None"
  by (simp add: compareImages_def sample_files Let_def sample_diff_path sample_readonly
      writeFileSync_def sample_resemble_def scale_off_def spread_def defaultOptions_def
      resemble_request_def sample_world_files dimensions_def figma_png_def code_png_def
      is_image_def parseFloat_def)

text \<open>
  C2, amended. For two existing input images whose dimensions differ, with
  \<open>scaleToSameSize\<close> disabled, \<open>compareImages\<close> does not fail (as long as the diff file
  can be written): it passes both images and the flag \<open>false\<close> to the comparison library,
  returns a result whose \<open>isSameDimensions\<close> and \<open>dimensionDifference\<close> are the library's,
  and writes the diff image whenever the library supplies one.
\<close>

theorem compareImages_forwards_dimensions:
  assumes f1: "files w image1Path = Some c1" and f2: "files w image2Path = Some c2"
    and dims: "dimensions c1 \<noteq> dimensions c2"
    and off: "opt_scaleToSameSize opts = Some False"
    and writable: "path_join (path_dirname image1Path) ''diff.png'' \<notin> readonly w"
  shows "\<exists>r w'. compareImages lib now image1Path image2Path opts w = (Inr r, w')
           \<and> resemble_calls w' = resemble_calls w @ [resemble_request w image1Path image2Path (spread defaultOptions opts)]
           \<and> image1 (last (resemble_calls w')) = Some c1
           \<and> image2 (last (resemble_calls w')) = Some c2
           \<and> scaleToSameSize_arg (last (resemble_calls w')) = False
           \<and> isSameDimensions r = data_isSameDimensions (lib (last (resemble_calls w')))
           \<and> dimensionDifference r = data_dimensionDifference (lib (last (resemble_calls w')))
           \<and> diffImagePath r = path_join (path_dirname image1Path) ''diff.png''
           \<and> files w' (diffImagePath r) =
               (case data_getBuffer (lib (last (resemble_calls w'))) of
                  Some diffBuffer \<Rightarrow> Some diffBuffer
                | None \<Rightarrow> files w (diffImagePath r))"
  using f1 f2 off writable
  by (auto simp: compareImages_def existsSync_def Let_def writeFileSync_def resemble_request_def
      spread_def split: option.splits)

theorem compareImages_forwards_dimensions_witness:
  "\<exists>r w'. compareImages sample_resemble 5 ''assets/figma.png'' ''assets/code.png'' scale_off sample_world
             = (Inr r, w')
      \<and> dimensions figma_png \<noteq> dimensions code_png
      \<and> scaleToSameSize_arg (last (resemble_calls w')) = False
      \<and> isSameDimensions r = Some False
      \<and> files w' (diffImagePath r) = Some diff_png"
proof -
  have f1: "files sample_world ''assets/figma.png'' = Some figma_png"
    and f2: "files sample_world ''assets/code.png'' = Some code_png"
    by (simp_all add: sample_world_def)
  have dims: "dimensions figma_png \<noteq> dimensions code_png"
    by (simp add: dimensions_def figma_png_def code_png_def)
  have off: "opt_scaleToSameSize scale_off = Some False" by (simp add: scale_off_def)
  have writable: "path_join (path_dirname ''assets/figma.png'') ''diff.png'' \<notin> readonly sample_world"
    by (simp add: sample_readonly)
  from compareImages_forwards_dimensions [OF f1 f2 dims off writable, of sample_resemble 5]
  obtain r w' where
    "compareImages sample_resemble 5 ''assets/figma.png'' ''assets/code.png'' scale_off sample_world
       = (Inr r, w')"
    "image1 (last (resemble_calls w')) = Some figma_png"
    "image2 (last (resemble_calls w')) = Some code_png"
    "scaleToSameSize_arg (last (resemble_calls w')) = False"
    "isSameDimensions r = data_isSameDimensions (sample_resemble (last (resemble_calls w')))"
    "files w' (diffImagePath r) =
       (case data_getBuffer (sample_resemble (last (resemble_calls w'))) of
          Some diffBuffer \<Rightarrow> Some diffBuffer
        | None \<Rightarrow> files sample_world (diffImagePath r))"
    by blast
  moreover have "figma_png \<noteq> code_png" by (simp add: figma_png_def code_png_def)
  moreover have "is_image (Some figma_png)" "is_image (Some code_png)"
    by (simp_all add: is_image_def figma_png_def code_png_def)
  ultimately show ?thesis
    using dims by (auto simp: sample_resemble_def)
qed

subsection \<open>Further facts\<close>

lemma handle_compare_file_status:
  assumes "handle_compare_file env t_compare t_respond req w = (resp, w')"
  shows "(http_status resp = 200) = (\<exists>rep. body resp = ReportBody rep)
       \<and> (http_status resp = 200 \<or> http_status resp = 400 \<or> http_status resp = 500)
       \<and> (http_status resp = 400) =
           (figmaImage req = None
            \<or> (\<exists>file. figmaImage req = Some file \<and> take 6 (mimetype file) = ''image/''
                 \<and> path_join (path_join (server_dirname env) ''assets'') ''figma-upload.png'' \<notin> readonly w
                 \<and> js_not (map_option JString (filePageUrl req))))"
  using assms
  by (auto simp: handle_compare_file_def compare_file_handler_def Let_def error_response_def
      writeFileSync_def fs_copy_def
      split: if_splits option.splits prod.splits sum.splits js_error.splits)

lemma fixed2_zero: "fixed2 0 = ''0.00''"
  by (simp add: fixed2_def Let_def decimal.simps [of 0] digit_chars)

lemma fl_100: "fl 100 = 100"
  by code_simp

lemma fixed2_hundred: "fixed2 100 = ''100.00''"
proof -
  have "\<lfloor>(20001::rat) / 2\<rfloor> = 10000" by (rule floor_unique) simp_all
  then show ?thesis
    by (simp add: fixed2_def Let_def decimal.simps [of 10000]
        decimal.simps [of 1000] decimal.simps [of 100] decimal.simps [of 10]
        decimal.simps [of "Suc 0"] digit_chars)
qed

lemma build_response_no_mismatch:
  "misMatchPercentage r = Num 0 \<Longrightarrow>
     matchScore (build_response now r) = ''100.00''
     \<and> misMatchPercentage' (build_response now r) = ''0.00''"
  by (simp add: build_response_def fixed2_zero fixed2_hundred fl_100)

lemma build_response_NaN:
  "misMatchPercentage r = NaN \<Longrightarrow>
     matchScore (build_response now r) = ''NaN''
     \<and> misMatchPercentage' (build_response now r) = ''NaN''"
  by (simp add: build_response_def)

lemma compareImages_load_error:
  assumes "files w image1Path = Some c1" and "files w image2Path = Some c2"
    and "data_misMatchPercentage (lib (resemble_request w image1Path image2Path (spread defaultOptions opts))) = None"
    and "data_getBuffer (lib (resemble_request w image1Path image2Path (spread defaultOptions opts))) = None"
  shows "\<exists>r w'. compareImages lib now image1Path image2Path opts w = (Inr r, w')
           \<and> misMatchPercentage r = NaN"
  using assms by (simp add: compareImages_def existsSync_def Let_def parseFloat_def)

end
